theory Spec2Isabelle
  imports Complex_Main "HOL-Library.Sublist" "HOL-Library.Log_Nat"
begin

text \<open>
  A model of the Polymarket paper-trading bot: the market record and its derived prices
  (scanner.py), the eligibility filter and the market parser (scanner.py), the virtual
  trader and the trade recorder (trader.py), the settlement check (scanner.py) and the
  settlement and trading steps of a cycle (main.py). The definitions come first, then
  sample inputs, then the properties.
\<close>

section \<open>Values and library functions\<close>

text \<open>
  Python floats are modelled as exact rationals: infinities and NaN are outside the model,
  except for the one infinity the program itself produces (\<open>hours_until_end\<close>), which
  has its own constructor below. The properties of the trader that depend on rounding
  are stated for exact arithmetic; the trader in double arithmetic, with every operation
  rounded, is modelled beside it.
\<close>

datatype json =
    JNull
  | JBool bool
  | JNum rat
  | JStr string
  | JArr "json list"
  | JObj "(string \<times> json) list"

datatype error = ZeroDivisionError

text \<open>Python truthiness of a decoded JSON value (\<open>if v\<close>, \<open>v or 0\<close>, \<open>not v\<close>).\<close>

fun truthy :: "json \<Rightarrow> bool" where
  "truthy JNull = False"
| "truthy (JBool b) = b"
| "truthy (JNum r) = (r \<noteq> 0)"
| "truthy (JStr s) = (s \<noteq> [])"
| "truthy (JArr xs) = (xs \<noteq> [])"
| "truthy (JObj kvs) = (kvs \<noteq> [])"

text \<open>
  What the program takes from the Python runtime: the clock (in seconds, and printed in
  ISO format), a fresh UUID, the ISO date parser (the instant in seconds, a date without
  zone read as UTC, \<open>None\<close> when it raises), \<open>float\<close> on a string and
  \<open>json.loads\<close> (\<open>None\<close> when they raise). They are parameters of the model.
\<close>

record runtime =
  utc_now :: rat
  isoformat_now :: string
  uuid4 :: string
  fromisoformat :: "string \<Rightarrow> rat option"
  float_of_str :: "string \<Rightarrow> rat option"
  json_loads :: "string \<Rightarrow> json option"

text \<open>
  \<open>float(v)\<close>: \<open>None\<close> stands for the TypeError or ValueError it raises. An integer
  beyond the range of a double, on which \<open>float\<close> raises OverflowError, is outside the
  model.
\<close>

fun py_float :: "runtime \<Rightarrow> json \<Rightarrow> rat option" where
  "py_float env (JNum r) = Some r"
| "py_float env (JBool b) = Some (if b then 1 else 0)"
| "py_float env (JStr s) = float_of_str env s"
| "py_float env JNull = None"
| "py_float env (JArr xs) = None"
| "py_float env (JObj kvs) = None"

section \<open>config.py\<close>

record config =
  VIRTUAL_BALANCE :: rat
  MAX_TRADES_PER_RUN :: nat
  MIN_PROBABILITY :: rat
  MAX_PROBABILITY :: rat
  MAX_HOURS_UNTIL_END :: rat
  MIN_VOLUME :: rat
  MAX_FEE :: rat
  TRADE_AMOUNT :: rat

definition default_config :: config where
  "default_config =
     \<lparr>VIRTUAL_BALANCE = 1000, MAX_TRADES_PER_RUN = 5, MIN_PROBABILITY = 90 / 100,
      MAX_PROBABILITY = 98 / 100, MAX_HOURS_UNTIL_END = 4, MIN_VOLUME = 1000, MAX_FEE = 0,
      TRADE_AMOUNT = 5\<rparr>"

section \<open>scanner.py: Market\<close>

text \<open>
  The text fields are strings, as the dataclass declares them and as the code uses them
  unguarded. \<open>outcome_prices\<close> and \<open>fee\<close> stay decoded JSON values: the code converts
  them with \<open>float\<close> inside \<open>try\<close> blocks.
\<close>

record market =
  m_id :: string
  m_question :: string
  m_end_date :: string
  m_outcome_prices :: json
  m_volume :: rat
  m_liquidity :: rat
  m_fee :: json
  m_clob_token_ids :: json
  m_closed :: bool
  m_accepting_orders :: bool
  m_start_date :: string
  m_created_at :: string

text \<open>
  \<open>float(self.outcome_prices[i]) if len(self.outcome_prices) > i else 0.0\<close> under
  \<open>try ... except: return 0.0\<close>. A list is indexed; a string is indexed by character;
  a JSON object has string keys only, so the integer key is missing; \<open>len\<close> of a
  number, a boolean or \<open>None\<close> raises.
\<close>

definition price_at :: "runtime \<Rightarrow> json \<Rightarrow> nat \<Rightarrow> rat" where
  "price_at env ps i =
     (case ps of
        JArr xs \<Rightarrow>
          (if length xs > i then (case py_float env (xs ! i) of Some r \<Rightarrow> r | None \<Rightarrow> 0)
           else 0)
      | JStr s \<Rightarrow>
          (if length s > i then (case float_of_str env [s ! i] of Some r \<Rightarrow> r | None \<Rightarrow> 0)
           else 0)
      | _ \<Rightarrow> 0)"

definition yes_price :: "runtime \<Rightarrow> market \<Rightarrow> rat" where
  "yes_price env m = price_at env (m_outcome_prices m) 0"

definition no_price :: "runtime \<Rightarrow> market \<Rightarrow> rat" where
  "no_price env m = price_at env (m_outcome_prices m) 1"

definition max_probability :: "runtime \<Rightarrow> market \<Rightarrow> rat" where
  "max_probability env m = max (yes_price env m) (no_price env m)"

definition high_probability_outcome :: "runtime \<Rightarrow> market \<Rightarrow> string" where
  "high_probability_outcome env m = (if yes_price env m \<ge> no_price env m then ''YES'' else ''NO'')"

definition high_probability_price :: "runtime \<Rightarrow> market \<Rightarrow> rat" where
  "high_probability_price env m = max (yes_price env m) (no_price env m)"

text \<open>\<open>str.replace(old, new)\<close> for a non-empty \<open>old\<close>: leftmost matches, not overlapping.\<close>

function py_replace :: "string \<Rightarrow> string \<Rightarrow> string \<Rightarrow> string" where
  "py_replace old new [] = []"
| "py_replace old new (c # cs) =
     (if old \<noteq> [] \<and> take (length old) (c # cs) = old
      then new @ py_replace old new (drop (length old) (c # cs))
      else c # py_replace old new cs)"
  by pat_completeness auto
termination
  by (relation "measure (\<lambda>(old, new, s). length s)") (auto simp add: neq_Nil_conv)

text \<open>
  \<open>hours_until_end\<close> is a float that may be \<open>float('inf')\<close>. The clock is read once
  for each evaluation of the property; the model reads one clock value.
\<close>

datatype hours = Hours rat | Forever

fun hours_le :: "hours \<Rightarrow> rat \<Rightarrow> bool" where
  "hours_le (Hours h) r = (h \<le> r)"
| "hours_le Forever r = False"

fun hours_gt :: "hours \<Rightarrow> rat \<Rightarrow> bool" where
  "hours_gt (Hours h) r = (h > r)"
| "hours_gt Forever r = True"

definition hours_until_end :: "runtime \<Rightarrow> market \<Rightarrow> hours" where
  "hours_until_end env m =
     (let end_str = m_end_date m
      in if end_str = [] then Forever
         else
           (case fromisoformat env (py_replace ''+00:00'' [] (py_replace ''Z'' [] end_str)) of
              None \<Rightarrow> Forever
            | Some e \<Rightarrow> Hours ((e - utc_now env) / 3600)))"

section \<open>trader.py: VirtualTrader\<close>

record executed_trade =
  et_market_id :: string
  et_question :: string
  et_outcome :: string
  et_price :: rat
  et_amount :: rat
  et_cost :: rat
  et_timestamp :: string
  et_status :: string
  et_start_date :: string
  et_end_date :: string
  et_created_at :: string

record position =
  p_market_id :: string
  p_question :: string
  p_outcome :: string
  p_price :: rat
  p_shares :: rat
  p_cost :: rat
  p_potential_payout :: rat
  p_profit_if_win :: rat
  p_timestamp :: string

record trader =
  balance :: rat
  initial_balance :: rat
  positions :: "position list"
  trade_history :: "executed_trade list"

definition VirtualTrader :: "rat \<Rightarrow> trader" where
  "VirtualTrader b = \<lparr>balance = b, initial_balance = b, positions = [], trade_history = []\<rparr>"

text \<open>
  \<open>execute_trade\<close> mutates the trader in place; the model returns the new state beside
  the result. The float division \<open>cost / price\<close> raises on a zero price, before anything
  is changed.
\<close>

definition execute_trade ::
  "runtime \<Rightarrow> config \<Rightarrow> rat option \<Rightarrow> trader \<Rightarrow> market \<Rightarrow> error + (trader \<times> executed_trade option)"
where
  "execute_trade env cfg amount t m =
     (let amount = (case amount of None \<Rightarrow> TRADE_AMOUNT cfg | Some a \<Rightarrow> a);
          outcome = high_probability_outcome env m;
          price = high_probability_price env m;
          shares_count = 5;
          cost = price * shares_count
      in if price = 0 then Inl ZeroDivisionError
         else
           let shares = cost / price in
           if balance t < cost then Inr (t, None)
           else
             let trade =
                   \<lparr>et_market_id = m_id m, et_question = m_question m, et_outcome = outcome,
                    et_price = price, et_amount = shares, et_cost = cost,
                    et_timestamp = isoformat_now env, et_status = ''simulated'',
                    et_start_date = m_start_date m, et_end_date = m_end_date m,
                    et_created_at = m_created_at m\<rparr>;
                 pos =
                   \<lparr>p_market_id = m_id m, p_question = m_question m, p_outcome = outcome,
                    p_price = price, p_shares = shares, p_cost = cost,
                    p_potential_payout = shares, p_profit_if_win = shares - cost,
                    p_timestamp = et_timestamp trade\<rparr>
             in Inr (t\<lparr>balance := balance t - cost,
                       positions := positions t @ [pos],
                       trade_history := trade_history t @ [trade]\<rparr>, Some trade))"

definition get_balance :: "trader \<Rightarrow> rat" where
  "get_balance t = balance t"

definition get_total_invested :: "trader \<Rightarrow> rat" where
  "get_total_invested t = sum_list (map p_cost (positions t))"

definition get_potential_payout :: "trader \<Rightarrow> rat" where
  "get_potential_payout t = sum_list (map p_potential_payout (positions t))"

definition get_total_profit_if_win :: "trader \<Rightarrow> rat" where
  "get_total_profit_if_win t = sum_list (map p_profit_if_win (positions t))"

text \<open>
  A sequence of \<open>execute_trade\<close> calls on one trader. A call that raises has changed
  nothing, so the next call sees the same state.
\<close>

definition after_trade :: "runtime \<Rightarrow> config \<Rightarrow> trader \<Rightarrow> market \<Rightarrow> trader" where
  "after_trade env cfg t m =
     (case execute_trade env cfg None t m of Inl e \<Rightarrow> t | Inr (t', r) \<Rightarrow> t')"

fun execute_trades :: "runtime \<Rightarrow> config \<Rightarrow> trader \<Rightarrow> market list \<Rightarrow> trader" where
  "execute_trades env cfg t [] = t"
| "execute_trades env cfg t (m # ms) = execute_trades env cfg (after_trade env cfg t m) ms"

section \<open>trader.py in double arithmetic\<close>

text \<open>
  A Python float is an IEEE 754 double: 53 significant bits, and every operation gives the
  double nearest to the exact result, the even one of two that are equally near.
  \<open>to_double\<close> rounds a rational in this way; the bounds of the exponent (overflow,
  subnormal numbers) are left out.
\<close>

definition pow2 :: "int \<Rightarrow> rat" where
  "pow2 e = (if 0 \<le> e then 2 ^ nat e else 1 / 2 ^ nat (- e))"

definition round_half_even :: "rat \<Rightarrow> int" where
  "round_half_even x =
     (let f = \<lfloor>x\<rfloor>; d = x - of_int f
      in if d < 1 / 2 then f else if 1 / 2 < d then f + 1 else if even f then f else f + 1)"

definition ilog2 :: "rat \<Rightarrow> int" where
  "ilog2 x =
     (let k = bitlen (fst (quotient_of x)) - bitlen (snd (quotient_of x))
      in if pow2 k \<le> x then k else k - 1)"

definition to_double :: "rat \<Rightarrow> rat" where
  "to_double x =
     (if x = 0 then 0
      else
        let ulp = pow2 (ilog2 \<bar>x\<bar> - 52)
        in sgn x * of_int (round_half_even (\<bar>x\<bar> / ulp)) * ulp)"

text \<open>
  \<open>execute_trade\<close> with the prices read as doubles and each of its operations rounded:
  the product, the quotient, and the two differences.
\<close>

definition execute_trade_double ::
  "runtime \<Rightarrow> config \<Rightarrow> rat option \<Rightarrow> trader \<Rightarrow> market \<Rightarrow> error + (trader \<times> executed_trade option)"
where
  "execute_trade_double env cfg amount t m =
     (let amount = (case amount of None \<Rightarrow> TRADE_AMOUNT cfg | Some a \<Rightarrow> a);
          yes = to_double (yes_price env m);
          no = to_double (no_price env m);
          outcome = (if yes \<ge> no then ''YES'' else ''NO'');
          price = max yes no;
          shares_count = 5;
          cost = to_double (price * shares_count)
      in if price = 0 then Inl ZeroDivisionError
         else
           let shares = to_double (cost / price) in
           if balance t < cost then Inr (t, None)
           else
             let trade =
                   \<lparr>et_market_id = m_id m, et_question = m_question m, et_outcome = outcome,
                    et_price = price, et_amount = shares, et_cost = cost,
                    et_timestamp = isoformat_now env, et_status = ''simulated'',
                    et_start_date = m_start_date m, et_end_date = m_end_date m,
                    et_created_at = m_created_at m\<rparr>;
                 pos =
                   \<lparr>p_market_id = m_id m, p_question = m_question m, p_outcome = outcome,
                    p_price = price, p_shares = shares, p_cost = cost,
                    p_potential_payout = shares, p_profit_if_win = to_double (shares - cost),
                    p_timestamp = et_timestamp trade\<rparr>
             in Inr (t\<lparr>balance := to_double (balance t - cost),
                       positions := positions t @ [pos],
                       trade_history := trade_history t @ [trade]\<rparr>, Some trade))"

text \<open>
  \<open>sum\<close> adds from the left, starting from 0, and every addition is rounded. (On one or
  two summands the compensated summation of newer interpreters gives the same double.)
\<close>

definition get_total_invested_double :: "trader \<Rightarrow> rat" where
  "get_total_invested_double t = foldl (\<lambda>s c. to_double (s + c)) 0 (map p_cost (positions t))"

definition after_trade_double :: "runtime \<Rightarrow> config \<Rightarrow> trader \<Rightarrow> market \<Rightarrow> trader" where
  "after_trade_double env cfg t m =
     (case execute_trade_double env cfg None t m of Inl e \<Rightarrow> t | Inr (t', r) \<Rightarrow> t')"

fun execute_trades_double :: "runtime \<Rightarrow> config \<Rightarrow> trader \<Rightarrow> market list \<Rightarrow> trader" where
  "execute_trades_double env cfg t [] = t"
| "execute_trades_double env cfg t (m # ms) =
     execute_trades_double env cfg (after_trade_double env cfg t m) ms"

text \<open>The trade a call returned, if it returned one.\<close>

definition returned_trade :: "error + (trader \<times> executed_trade option) \<Rightarrow> executed_trade option" where
  "returned_trade r = (case r of Inl e \<Rightarrow> None | Inr (t, tr) \<Rightarrow> tr)"

section \<open>scanner.py: MarketScanner\<close>

subsection \<open>filter_markets\<close>

text \<open>\<open>fee = float(market.fee) if market.fee else 0\<close>; \<open>None\<close> when \<open>float\<close> raises.\<close>

definition fee_value :: "runtime \<Rightarrow> market \<Rightarrow> rat option" where
  "fee_value env m = (if truthy (m_fee m) then py_float env (m_fee m) else Some 0)"

text \<open>The \<open>try\<close> block of step 3: \<open>continue\<close> when the fee exceeds the limit, \<open>pass\<close> on any exception.\<close>

definition fee_too_high :: "runtime \<Rightarrow> config \<Rightarrow> market \<Rightarrow> bool" where
  "fee_too_high env cfg m = (case fee_value env m of None \<Rightarrow> False | Some fee \<Rightarrow> fee > MAX_FEE cfg)"

text \<open>
  The \<open>for\<close> loop of \<open>filter_markets\<close>; each \<open>continue\<close> goes on with the same list.
  The line logged for a market that is kept is left out: it slices the question and
  formats two floats, which cannot raise on a market with a string question.
\<close>

fun filter_loop :: "runtime \<Rightarrow> config \<Rightarrow> market list \<Rightarrow> market list \<Rightarrow> market list" where
  "filter_loop env cfg [] filtered = filtered"
| "filter_loop env cfg (market # markets) filtered =
     (if m_closed market \<or> \<not> m_accepting_orders market then filter_loop env cfg markets filtered
      else if hours_le (hours_until_end env market) 0 then filter_loop env cfg markets filtered
      else if hours_gt (hours_until_end env market) (MAX_HOURS_UNTIL_END cfg)
        then filter_loop env cfg markets filtered
      else if max_probability env market < MIN_PROBABILITY cfg then filter_loop env cfg markets filtered
      else if max_probability env market > MAX_PROBABILITY cfg then filter_loop env cfg markets filtered
      else if fee_too_high env cfg market then filter_loop env cfg markets filtered
      else if m_volume market < MIN_VOLUME cfg then filter_loop env cfg markets filtered
      else filter_loop env cfg markets (filtered @ [market]))"

text \<open>\<open>list.sort(key=...)\<close> is a stable sort, as \<open>sort_key\<close> is; the slice keeps a prefix.\<close>

definition filter_markets :: "runtime \<Rightarrow> config \<Rightarrow> market list \<Rightarrow> market list" where
  "filter_markets env cfg markets =
     take (MAX_TRADES_PER_RUN cfg)
       (sort_key (high_probability_price env) (filter_loop env cfg markets []))"

text \<open>
  The six predicates as the specification words them, to be compared with the loop:
  open and accepting orders; not yet ended; within the horizon; dominant probability in
  the closed band; fee within the limit, a fee that cannot be parsed passing; enough volume.
\<close>

definition eligible :: "runtime \<Rightarrow> config \<Rightarrow> market \<Rightarrow> bool" where
  "eligible env cfg m \<longleftrightarrow>
     (\<not> m_closed m \<and> m_accepting_orders m) \<and>
     hours_gt (hours_until_end env m) 0 \<and>
     hours_le (hours_until_end env m) (MAX_HOURS_UNTIL_END cfg) \<and>
     (MIN_PROBABILITY cfg \<le> max_probability env m \<and> max_probability env m \<le> MAX_PROBABILITY cfg) \<and>
     (case fee_value env m of None \<Rightarrow> True | Some fee \<Rightarrow> fee \<le> MAX_FEE cfg) \<and>
     m_volume m \<ge> MIN_VOLUME cfg"

subsection \<open>parse_market\<close>

text \<open>
  One raw record of the API: \<open>None\<close> is a missing key. The fields the code copies are
  text; the fields it converts are arbitrary JSON values.
\<close>

record raw_market =
  r_id :: "string option"
  r_question :: "string option"
  r_endDate :: "string option"
  r_outcomePrices :: "json option"
  r_volume :: "json option"
  r_liquidity :: "json option"
  r_fee :: "json option"
  r_clobTokenIds :: "json option"
  r_closed :: "json option"
  r_acceptingOrders :: "json option"
  r_startDate :: "string option"
  r_createdAt :: "string option"

definition lower_char :: "char \<Rightarrow> char" where
  "lower_char c =
     (case map_of (zip ''ABCDEFGHIJKLMNOPQRSTUVWXYZ'' ''abcdefghijklmnopqrstuvwxyz'') c of
        Some d \<Rightarrow> d | None \<Rightarrow> c)"

fun parse_bool :: "json \<Rightarrow> bool" where
  "parse_bool (JBool b) = b"
| "parse_bool (JStr s) = (map lower_char s = ''true'')"
| "parse_bool v = False"

text \<open>
  \<open>json.loads(data[k])\<close> guarded by \<open>if data.get(k)\<close> and by \<open>try ... except\<close>:
  a missing, falsy, non-string or undecodable value gives the empty list.
\<close>

definition decode_field :: "runtime \<Rightarrow> json option \<Rightarrow> json" where
  "decode_field env v =
     (case v of
        Some (JStr s) \<Rightarrow>
          (if s \<noteq> [] then (case json_loads env s of Some d \<Rightarrow> d | None \<Rightarrow> JArr []) else JArr [])
      | _ \<Rightarrow> JArr [])"

text \<open>\<open>float(data.get(k, 0) or 0)\<close>; \<open>None\<close> when \<open>float\<close> raises.\<close>

definition numeric_field :: "runtime \<Rightarrow> json option \<Rightarrow> rat option" where
  "numeric_field env v =
     (case v of
        None \<Rightarrow> Some 0
      | Some j \<Rightarrow> (if truthy j then py_float env j else Some 0))"

text \<open>Any exception inside \<open>parse_market\<close> is caught, logged, and \<open>None\<close> is returned.\<close>

definition parse_market :: "runtime \<Rightarrow> raw_market \<Rightarrow> market option" where
  "parse_market env data =
     (let outcome_prices = decode_field env (r_outcomePrices data);
          clob_token_ids = decode_field env (r_clobTokenIds data)
      in case numeric_field env (r_volume data) of
           None \<Rightarrow> None
         | Some volume \<Rightarrow>
             (case numeric_field env (r_liquidity data) of
                None \<Rightarrow> None
              | Some liquidity \<Rightarrow>
                  Some \<lparr>m_id = (case r_id data of None \<Rightarrow> [] | Some x \<Rightarrow> x),
                        m_question = (case r_question data of None \<Rightarrow> [] | Some x \<Rightarrow> x),
                        m_end_date = (case r_endDate data of None \<Rightarrow> [] | Some x \<Rightarrow> x),
                        m_outcome_prices = outcome_prices,
                        m_volume = volume,
                        m_liquidity = liquidity,
                        m_fee = (case r_fee data of None \<Rightarrow> JStr ''0'' | Some x \<Rightarrow> x),
                        m_clob_token_ids = clob_token_ids,
                        m_closed = (case r_closed data of None \<Rightarrow> False | Some x \<Rightarrow> parse_bool x),
                        m_accepting_orders =
                          (case r_acceptingOrders data of None \<Rightarrow> True | Some x \<Rightarrow> parse_bool x),
                        m_start_date = (case r_startDate data of None \<Rightarrow> [] | Some x \<Rightarrow> x),
                        m_created_at = (case r_createdAt data of None \<Rightarrow> [] | Some x \<Rightarrow> x)\<rparr>))"

section \<open>trader.py: TradeRecorder\<close>

record planned_trade =
  pt_market_id :: string
  pt_question :: string
  pt_outcome :: string
  pt_price :: rat
  pt_amount :: rat
  pt_reason :: string

record scan_stats =
  total_api :: nat
  total_parsed :: nat
  non_crypto :: nat
  filtered :: nat

record run_summary =
  markets_scanned :: nat
  trades_planned :: nat
  trades_executed :: nat
  s_total_invested :: rat
  s_potential_payout :: rat
  s_balance_after :: rat

text \<open>
  A trade as the ledger file holds it: the fields of the ExecutedTrade, and the keys
  \<open>settled\<close> and \<open>resolution\<close>, which a trade has only once its settlement is written.
\<close>

record stored_trade =
  st_trade :: executed_trade
  st_settled :: "json option"
  st_resolution :: "json option"

definition to_dict :: "executed_trade \<Rightarrow> stored_trade" where
  "to_dict tr = \<lparr>st_trade = tr, st_settled = None, st_resolution = None\<rparr>"

record run_record =
  run_id :: string
  rr_timestamp :: string
  virtual_balance_before :: rat
  planned_trades :: "planned_trade list"
  rr_executed_trades :: "stored_trade list"
  scan_info :: "scan_stats option"
  summary :: "run_summary option"

record ledger =
  runs :: "run_record list"
  total_invested :: rat
  total_payout :: rat
  win_count :: nat
  loss_count :: nat

definition empty_ledger :: ledger where
  "empty_ledger = \<lparr>runs = [], total_invested = 0, total_payout = 0, win_count = 0, loss_count = 0\<rparr>"

text \<open>The dictionary given to \<open>record_run\<close>; \<open>None\<close> is a missing key.\<close>

record run_data =
  rd_balance_before :: "rat option"
  rd_planned_trades :: "planned_trade list option"
  rd_executed_trades :: "stored_trade list option"
  rd_scan_info :: "scan_stats option"
  rd_summary :: "run_summary option"

definition record_run :: "runtime \<Rightarrow> ledger \<Rightarrow> run_data \<Rightarrow> ledger \<times> string" where
  "record_run env trades rd =
     (let run_id = take 8 (uuid4 env);
          run_record =
            \<lparr>run_id = run_id, rr_timestamp = isoformat_now env,
             virtual_balance_before = (case rd_balance_before rd of None \<Rightarrow> 0 | Some b \<Rightarrow> b),
             planned_trades = (case rd_planned_trades rd of None \<Rightarrow> [] | Some p \<Rightarrow> p),
             rr_executed_trades = (case rd_executed_trades rd of None \<Rightarrow> [] | Some e \<Rightarrow> e),
             scan_info = rd_scan_info rd, summary = rd_summary rd\<rparr>;
          trades1 = trades\<lparr>runs := runs trades @ [run_record]\<rparr>;
          executed = (case rd_executed_trades rd of None \<Rightarrow> [] | Some e \<Rightarrow> e)
      in (if executed \<noteq> []
          then trades1\<lparr>total_invested :=
                 total_invested trades1 + sum_list (map (\<lambda>t. et_amount (st_trade t)) executed)\<rparr>
          else trades1,
          run_id))"

text \<open>All executed trades the ledger stores, and what they cost.\<close>

definition ledger_trades :: "ledger \<Rightarrow> stored_trade list" where
  "ledger_trades trades = concat (map rr_executed_trades (runs trades))"

definition ledger_cost :: "ledger \<Rightarrow> rat" where
  "ledger_cost trades = sum_list (map (\<lambda>t. et_cost (st_trade t)) (ledger_trades trades))"

section \<open>scanner.py: check_settlements\<close>

record settlement =
  resolved :: "stored_trade list"
  unresolved :: "stored_trade list"
  newly_resolved :: "stored_trade list"

definition no_settlement :: settlement where
  "no_settlement = \<lparr>resolved = [], unresolved = [], newly_resolved = []\<rparr>"

text \<open>\<open>t.get('settled')\<close> as a condition.\<close>

definition is_settled :: "stored_trade \<Rightarrow> bool" where
  "is_settled t = (case st_settled t of None \<Rightarrow> False | Some j \<Rightarrow> truthy j)"

text \<open>The de-duplication loop: the first trade of each non-empty market id, in order.\<close>

fun unique_markets :: "stored_trade list \<Rightarrow> (string \<times> stored_trade) list \<Rightarrow> (string \<times> stored_trade) list"
where
  "unique_markets [] unique = unique"
| "unique_markets (t # ts) unique =
     (let mid = et_market_id (st_trade t)
      in if mid \<noteq> [] \<and> mid \<notin> set (map fst unique)
         then unique_markets ts (unique @ [(mid, t)])
         else unique_markets ts unique)"

text \<open>
  The market API: the JSON object answered for a market id, \<open>None\<close> when the request or
  its decoding raises, or the answer is no object. The query loop asks once for each
  entry; an exception inside it leaves the trade unresolved. The lines it logs are left
  out: they slice the question, a string in every stored trade.
\<close>

type_synonym market_api = "string \<Rightarrow> (string \<rightharpoonup> json) option"

fun query_loop :: "market_api \<Rightarrow> (string \<times> stored_trade) list \<Rightarrow> settlement \<Rightarrow> settlement" where
  "query_loop api [] acc = acc"
| "query_loop api ((mid, trade) # rest) acc =
     (case api mid of
        None \<Rightarrow> query_loop api rest (acc\<lparr>unresolved := unresolved acc @ [trade]\<rparr>)
      | Some market \<Rightarrow>
          (let is_closed = (case market ''closed'' of None \<Rightarrow> False | Some j \<Rightarrow> truthy j);
               resolution = (case market ''resolution'' of None \<Rightarrow> JNull | Some j \<Rightarrow> j)
           in if is_closed \<and> truthy resolution \<and> resolution \<noteq> JStr ''null'' then
                (let result = trade\<lparr>st_resolution := Some resolution, st_settled := Some (JBool True)\<rparr>
                 in query_loop api rest
                      (acc\<lparr>resolved := resolved acc @ [result],
                           newly_resolved :=
                             (if \<not> is_settled trade then newly_resolved acc @ [result]
                              else newly_resolved acc)\<rparr>))
              else if is_closed then
                (let result =
                       trade\<lparr>st_resolution := Some (JStr ''CANCELLED''), st_settled := Some (JBool True)\<rparr>
                 in query_loop api rest
                      (acc\<lparr>resolved := resolved acc @ [result],
                           newly_resolved :=
                             (if \<not> is_settled trade then newly_resolved acc @ [result]
                              else newly_resolved acc)\<rparr>))
              else query_loop api rest (acc\<lparr>unresolved := unresolved acc @ [trade]\<rparr>)))"

text \<open>
  \<open>check_settlements\<close> reads the ledger file (\<open>None\<close>: no file) and writes nothing. The
  model returns, beside the result, the market ids it asked the API for.
\<close>

definition check_settlements :: "market_api \<Rightarrow> ledger option \<Rightarrow> settlement \<times> string list" where
  "check_settlements api trades_file =
     (case trades_file of
        None \<Rightarrow> (no_settlement, [])
      | Some data \<Rightarrow>
          (let all_trades = filter (\<lambda>t. \<not> is_settled t) (concat (map rr_executed_trades (runs data)))
           in if all_trades = [] then (no_settlement, [])
              else
                (let unique = unique_markets all_trades []
                 in (query_loop api unique no_settlement, map fst unique))))"

section \<open>main.py: ArbitrageBot.run_once\<close>

text \<open>
  The settlement step of successive cycles. Step 0 of \<open>run_once\<close> looks the settlement
  up and logs it; neither \<open>check_settlements\<close> nor \<open>run_once\<close> writes it to the
  ledger file. The only writer is \<open>record_run\<close>, at the end of a cycle that found markets
  (\<open>None\<close>: a cycle that found none, and recorded nothing), so the next cycle reads the
  ledger as the recorder saved it.
\<close>

fun settlement_cycles ::
  "runtime \<Rightarrow> market_api \<Rightarrow> ledger \<Rightarrow> run_data option list \<Rightarrow> settlement list"
where
  "settlement_cycles env api trades [] = []"
| "settlement_cycles env api trades (rd # rds) =
     fst (check_settlements api (Some trades)) #
     settlement_cycles env api
       (case rd of None \<Rightarrow> trades | Some d \<Rightarrow> fst (record_run env trades d)) rds"

text \<open>
  Step 3 of a cycle, the loop over the candidates, with the lines it logs: the warning
  before the \<open>break\<close>, the line for an executed trade, and the warning for an attempt
  that returned no trade. An exception of \<open>execute_trade\<close> leaves the loop.
\<close>

datatype log_line =
    BalanceInsufficient
  | TradeDone executed_trade
  | TradeFailed market

fun trade_loop ::
  "runtime \<Rightarrow> config \<Rightarrow> trader \<Rightarrow> market list \<Rightarrow> executed_trade list \<Rightarrow> log_line list \<Rightarrow>
     error + (trader \<times> executed_trade list \<times> log_line list)"
where
  "trade_loop env cfg t [] executed_trades logged = Inr (t, executed_trades, logged)"
| "trade_loop env cfg t (market # markets) executed_trades logged =
     (if get_balance t < TRADE_AMOUNT cfg then Inr (t, executed_trades, logged @ [BalanceInsufficient])
      else
        (case execute_trade env cfg None t market of
           Inl e \<Rightarrow> Inl e
         | Inr (t', Some executed) \<Rightarrow>
             trade_loop env cfg t' markets (executed_trades @ [executed]) (logged @ [TradeDone executed])
         | Inr (t', None) \<Rightarrow>
             trade_loop env cfg t' markets executed_trades (logged @ [TradeFailed market])))"

section \<open>Sample inputs\<close>

text \<open>
  The examples need a concrete runtime. Its \<open>float\<close> reads plain decimal numerals
  (sign, digits, point, digits), which is what the examples contain; its date parser knows
  the one date they use; its \<open>json.loads\<close> is never reached by them.
\<close>

definition digit_of :: "char \<Rightarrow> nat option" where
  "digit_of c = map_of (zip ''0123456789'' [0, 1, 2, 3, 4, 5, 6, 7, 8, 9]) c"

fun digits_of :: "string \<Rightarrow> nat \<Rightarrow> nat option" where
  "digits_of [] acc = Some acc"
| "digits_of (c # cs) acc =
     (case digit_of c of None \<Rightarrow> None | Some d \<Rightarrow> digits_of cs (10 * acc + d))"

definition float_plain :: "string \<Rightarrow> rat option" where
  "float_plain s =
     (let neg = (take 1 s = ''-'');
          b = (if take 1 s = ''-'' \<or> take 1 s = ''+'' then drop 1 s else s);
          ip = takeWhile (\<lambda>c. c \<noteq> CHR ''.'') b;
          fp = drop (length ip + 1) b
      in if ip = [] \<and> fp = [] then None
         else (case (digits_of ip 0, digits_of fp 0) of
                 (Some i, Some f) \<Rightarrow>
                   Some ((if neg then - 1 else 1) * (of_nat i + of_nat f / 10 ^ length fp))
               | _ \<Rightarrow> None))"

definition env0 :: runtime where
  "env0 = \<lparr>utc_now = 0, isoformat_now = ''1970-01-01T00:00:00+00:00'',
            uuid4 = ''0f8fad5b-d9cb-469f-a165-70867728950e'',
            fromisoformat = (\<lambda>s. if s = ''1970-01-01T02:00:00'' then Some 7200 else None),
            float_of_str = float_plain, json_loads = (\<lambda>s. None)\<rparr>"

text \<open>
  A market that ends in two hours, without fee, with volume 5000, open and accepting
  orders; the examples vary its prices.
\<close>

definition sample_market :: "string \<Rightarrow> json \<Rightarrow> market" where
  "sample_market i ps =
     \<lparr>m_id = i, m_question = ''Will it rain?'', m_end_date = ''1970-01-01T02:00:00Z'',
      m_outcome_prices = ps, m_volume = 5000, m_liquidity = 0, m_fee = JStr ''0'',
      m_clob_token_ids = JArr [], m_closed = False, m_accepting_orders = True,
      m_start_date = [], m_created_at = []\<rparr>"

definition m95 :: market where
  "m95 = sample_market ''m95'' (JArr [JStr ''0.95'', JStr ''0.05''])"

definition m97 :: market where
  "m97 = sample_market ''m97'' (JArr [JStr ''0.97'', JStr ''0.03''])"

definition m94 :: market where
  "m94 = sample_market ''m94'' (JArr [JStr ''0.94'', JStr ''0.06''])"

text \<open>At the upper end of the band, at the least volume, with a fee that is no number.\<close>

definition m98 :: market where
  "m98 = (sample_market ''m98'' (JArr [JNum (2 / 100), JNum (98 / 100)]))
           \<lparr>m_fee := JStr ''n/a'', m_volume := 1000\<rparr>"

definition m95b :: market where
  "m95b = sample_market ''m95b'' (JArr [JNum (95 / 100), JNum (5 / 100)])"

definition m95_closed :: market where
  "m95_closed = m95\<lparr>m_closed := True\<rparr>"

text \<open>Prices that are no numbers: both default to 0.\<close>

definition m_noprice :: market where
  "m_noprice = sample_market ''m0'' (JArr [JStr ''abc'', JStr []])"

definition t_ten :: trader where
  "t_ten = VirtualTrader 10"

definition t_neg :: trader where
  "t_neg = VirtualTrader (- 1)"

text \<open>A raw record without volume and with a null liquidity, and one whose volume is a word.\<close>

definition raw_sparse :: raw_market where
  "raw_sparse =
     \<lparr>r_id = Some ''m1'', r_question = Some ''Will it rain?'',
      r_endDate = Some ''1970-01-01T02:00:00Z'', r_outcomePrices = None, r_volume = None,
      r_liquidity = Some JNull, r_fee = None, r_clobTokenIds = None,
      r_closed = Some (JStr ''False''), r_acceptingOrders = None, r_startDate = None,
      r_createdAt = None\<rparr>"

definition raw_text_volume :: raw_market where
  "raw_text_volume = raw_sparse\<lparr>r_volume := Some (JStr ''abc'')\<rparr>"

text \<open>
  The trade that \<open>execute_trade\<close> returns on \<open>m95\<close>, a run that executed it, and the
  ledger after \<open>record_run\<close> has stored that run.
\<close>

definition tr95 :: executed_trade where
  "tr95 =
     \<lparr>et_market_id = ''m95'', et_question = ''Will it rain?'', et_outcome = ''YES'',
      et_price = 95 / 100, et_amount = 5, et_cost = 475 / 100,
      et_timestamp = ''1970-01-01T00:00:00+00:00'', et_status = ''simulated'',
      et_start_date = [], et_end_date = ''1970-01-01T02:00:00Z'', et_created_at = []\<rparr>"

definition rd95 :: run_data where
  "rd95 =
     \<lparr>rd_balance_before = Some 1000, rd_planned_trades = Some [],
      rd_executed_trades = Some [to_dict tr95], rd_scan_info = None, rd_summary = None\<rparr>"

definition ledger95 :: ledger where
  "ledger95 = fst (record_run env0 empty_ledger rd95)"

text \<open>A later run, with a trade on another market, which the API cannot be asked about.\<close>

definition tr97 :: executed_trade where
  "tr97 = tr95\<lparr>et_market_id := ''m97'', et_price := 97 / 100, et_cost := 485 / 100\<rparr>"

definition rd97 :: run_data where
  "rd97 = rd95\<lparr>rd_executed_trades := Some [to_dict tr97]\<rparr>"

text \<open>The API answers that market \<open>m95\<close> is closed, with a null resolution.\<close>

definition api_closed_null :: market_api where
  "api_closed_null mid =
     (if mid = ''m95'' then Some [''closed'' \<mapsto> JBool True, ''resolution'' \<mapsto> JNull] else None)"

definition tr95_cancelled :: stored_trade where
  "tr95_cancelled =
     \<lparr>st_trade = tr95, st_settled = Some (JBool True), st_resolution = Some (JStr ''CANCELLED'')\<rparr>"

text \<open>A configuration whose trade amount is below the cost of five shares, and some traders.\<close>

definition cfg_unit :: config where
  "cfg_unit = default_config\<lparr>TRADE_AMOUNT := 1\<rparr>"

definition t_low :: trader where
  "t_low = VirtualTrader (9 / 2)"

definition t_three :: trader where
  "t_three = VirtualTrader 3"

section \<open>Evaluating the samples\<close>

lemma float_plain_samples:
  "float_plain ''0.95'' = Some (95 / 100)" "float_plain ''0.05'' = Some (5 / 100)"
  "float_plain ''0.97'' = Some (97 / 100)" "float_plain ''0.03'' = Some (3 / 100)"
  "float_plain ''0'' = Some 0" "float_plain ''n/a'' = None" "float_plain ''abc'' = None"
  "float_plain [] = None"
  by (simp_all add: float_plain_def digit_of_def)

lemmas price_defs = high_probability_price_def max_probability_def yes_price_def no_price_def
  price_at_def

lemma sample_prices:
  "high_probability_price env0 m95 = 95 / 100" "high_probability_price env0 m97 = 97 / 100"
  "high_probability_price env0 m98 = 98 / 100" "high_probability_price env0 m95b = 95 / 100"
  "high_probability_price env0 m95_closed = 95 / 100"
  by (simp_all add: price_defs m95_def m97_def m98_def m95b_def m95_closed_def sample_market_def
      env0_def float_plain_samples)

lemma price_m_noprice: "yes_price env0 m_noprice = 0 \<and> no_price env0 m_noprice = 0"
  by (simp add: yes_price_def no_price_def price_at_def m_noprice_def
      sample_market_def env0_def float_plain_samples)

text \<open>The roundings that the examples in double arithmetic meet.\<close>

lemma to_double_samples:
  "to_double (1 / 50) = 5764607523034235 / 288230376151711744"
  "to_double (10583459124320664 / 2116691824864133) = 5629499534213119 / 1125899906842624"
  "to_double (10583459124320665 / 2251799813685248) = 1322932390540083 / 281474976710656"
  "to_double (11033819087057715 / 2251799813685248) = 2758454771764429 / 562949953421312"
  "to_double (11033819087057716 / 2206763817411543) = 5629499534213121 / 1125899906842624"
  "to_double (112589990684263 / 1125899906842624) = 112589990684263 / 1125899906842624"
  "to_double (1322932390540083 / 140737488355328) = 1322932390540083 / 140737488355328"
  "to_double (1322932390540083 / 281474976710656) = 1322932390540083 / 281474976710656"
  "to_double (140737488355327987 / 140737488355328) = 8796093022207999 / 8796093022208"
  "to_double (278829111929575821 / 281474976710656) = 2178352436949811 / 2199023255552"
  "to_double (280152044320115917 / 281474976710656) = 4377375692501811 / 4398046511104"
  "to_double (2871044762448691 / 562949953421312) = 2871044762448691 / 562949953421312"
  "to_double (3 / 50) = 1080863910568919 / 18014398509481984"
  "to_double (337769972052787 / 1125899906842624) = 337769972052787 / 1125899906842624"
  "to_double (47 / 50) = 2116691824864133 / 2251799813685248"
  "to_double (49 / 50) = 2206763817411543 / 2251799813685248"
  by code_simp+

lemma m94_prices:
  "yes_price env0 m94 = 47 / 50" "no_price env0 m94 = 3 / 50"
  by (simp_all add: yes_price_def no_price_def price_at_def m94_def sample_market_def env0_def
      float_plain_def digit_of_def)

lemma sample_eligible:
  "eligible env0 default_config m95" "eligible env0 default_config m97"
  "eligible env0 default_config m98" "eligible env0 default_config m95b"
  "\<not> eligible env0 default_config m95_closed"
  by (simp_all add: eligible_def fee_value_def price_defs hours_until_end_def
      m95_def m97_def m98_def m95b_def m95_closed_def sample_market_def
      env0_def default_config_def float_plain_samples)

section \<open>The virtual trader\<close>

text \<open>\<open>execute_trade\<close> with its local definitions unfolded: the three ways it ends.\<close>

lemma execute_trade_cases:
  "execute_trade env cfg a t m =
     (if high_probability_price env m = 0 then Inl ZeroDivisionError
      else if balance t < high_probability_price env m * 5 then Inr (t, None)
      else Inr (t\<lparr>balance := balance t - high_probability_price env m * 5,
                 positions := positions t @
                   [\<lparr>p_market_id = m_id m, p_question = m_question m,
                     p_outcome = high_probability_outcome env m,
                     p_price = high_probability_price env m, p_shares = 5,
                     p_cost = high_probability_price env m * 5,
                     p_potential_payout = 5,
                     p_profit_if_win = 5 - high_probability_price env m * 5,
                     p_timestamp = isoformat_now env\<rparr>],
                 trade_history := trade_history t @
                   [\<lparr>et_market_id = m_id m, et_question = m_question m,
                     et_outcome = high_probability_outcome env m,
                     et_price = high_probability_price env m, et_amount = 5,
                     et_cost = high_probability_price env m * 5,
                     et_timestamp = isoformat_now env, et_status = ''simulated'',
                     et_start_date = m_start_date m, et_end_date = m_end_date m,
                     et_created_at = m_created_at m\<rparr>]\<rparr>,
               Some \<lparr>et_market_id = m_id m, et_question = m_question m,
                     et_outcome = high_probability_outcome env m,
                     et_price = high_probability_price env m, et_amount = 5,
                     et_cost = high_probability_price env m * 5,
                     et_timestamp = isoformat_now env, et_status = ''simulated'',
                     et_start_date = m_start_date m, et_end_date = m_end_date m,
                     et_created_at = m_created_at m\<rparr>))"
  by (simp add: execute_trade_def Let_def)

lemma after_trade_nonneg: "0 \<le> balance t \<Longrightarrow> 0 \<le> balance (after_trade env cfg t m)"
  by (simp add: after_trade_def execute_trade_cases)

lemma execute_trades_nonneg: "0 \<le> balance t \<Longrightarrow> 0 \<le> balance (execute_trades env cfg t ms)"
  by (induction ms arbitrary: t) (simp_all add: after_trade_nonneg)

lemma after_trade_conserves:
  "balance (after_trade env cfg t m) + get_total_invested (after_trade env cfg t m) =
     balance t + get_total_invested t \<and> initial_balance (after_trade env cfg t m) = initial_balance t"
  by (simp add: after_trade_def execute_trade_cases get_total_invested_def)

lemma execute_trades_conserves:
  "balance (execute_trades env cfg t ms) + get_total_invested (execute_trades env cfg t ms) =
     balance t + get_total_invested t \<and> initial_balance (execute_trades env cfg t ms) = initial_balance t"
  by (induction ms arbitrary: t) (simp_all add: after_trade_conserves)

text \<open>
  Claim C1, for a market whose dominant price is not zero. \<open>execute_trade\<close> returns no
  trade exactly when the balance is below the cost (dominant price times the five
  shares), and then the trader is unchanged. Otherwise it takes the cost off the
  balance, appends one position (its payout the shares, its profit the shares less the
  cost) and one executed trade, and returns that trade. Over any sequence of calls, on
  any markets, a balance that starts non-negative stays non-negative.
\<close>

theorem execute_trade_guard:
  assumes "high_probability_price env m \<noteq> 0"
  shows "((\<exists>t'. execute_trade env cfg a t m = Inr (t', None)) \<longleftrightarrow>
            balance t < high_probability_price env m * 5) \<and>
         (balance t < high_probability_price env m * 5 \<longrightarrow>
            execute_trade env cfg a t m = Inr (t, None)) \<and>
         (\<not> balance t < high_probability_price env m * 5 \<longrightarrow>
            (\<exists>pos tr. execute_trade env cfg a t m =
                 Inr (t\<lparr>balance := balance t - high_probability_price env m * 5,
                          positions := positions t @ [pos],
                          trade_history := trade_history t @ [tr]\<rparr>, Some tr) \<and>
               p_cost pos = high_probability_price env m * 5 \<and>
               p_potential_payout pos = p_shares pos \<and>
               p_profit_if_win pos = p_shares pos - p_cost pos \<and>
               et_cost tr = high_probability_price env m * 5)) \<and>
         (\<forall>ms. 0 \<le> balance t \<longrightarrow> 0 \<le> balance (execute_trades env cfg t ms))"
proof -
  let ?c = "high_probability_price env m * 5"
  have 1: "(\<exists>t'. execute_trade env cfg a t m = Inr (t', None)) \<longleftrightarrow> balance t < ?c"
    using assms by (simp add: execute_trade_cases)
  have 2: "balance t < ?c \<longrightarrow> execute_trade env cfg a t m = Inr (t, None)"
    using assms by (simp add: execute_trade_cases)
  have 3: "\<not> balance t < ?c \<longrightarrow>
            (\<exists>pos tr. execute_trade env cfg a t m =
                 Inr (t\<lparr>balance := balance t - ?c, positions := positions t @ [pos],
                          trade_history := trade_history t @ [tr]\<rparr>, Some tr) \<and>
               p_cost pos = ?c \<and> p_potential_payout pos = p_shares pos \<and>
               p_profit_if_win pos = p_shares pos - p_cost pos \<and> et_cost tr = ?c)"
  proof
    assume nb: "\<not> balance t < ?c"
    show "\<exists>pos tr. execute_trade env cfg a t m =
                 Inr (t\<lparr>balance := balance t - ?c, positions := positions t @ [pos],
                          trade_history := trade_history t @ [tr]\<rparr>, Some tr) \<and>
               p_cost pos = ?c \<and> p_potential_payout pos = p_shares pos \<and>
               p_profit_if_win pos = p_shares pos - p_cost pos \<and> et_cost tr = ?c"
      apply (simp add: execute_trade_cases assms nb)
      apply (rule exI, rule conjI, rule refl)
      apply simp
      done
  qed
  have 4: "\<forall>ms. 0 \<le> balance t \<longrightarrow> 0 \<le> balance (execute_trades env cfg t ms)"
    by (simp add: execute_trades_nonneg)
  from 1 2 3 4 show ?thesis by blast
qed

theorem execute_trade_guard_witness:
  "high_probability_price env0 m97 \<noteq> 0 \<and>
   \<not> balance t_ten < high_probability_price env0 m97 * 5 \<and>
   (\<exists>pos tr. execute_trade env0 default_config None t_ten m97 =
       Inr (t_ten\<lparr>balance := balance t_ten - high_probability_price env0 m97 * 5,
                   positions := positions t_ten @ [pos],
                   trade_history := trade_history t_ten @ [tr]\<rparr>, Some tr) \<and>
      p_potential_payout pos = p_shares pos \<and> p_profit_if_win pos = p_shares pos - p_cost pos) \<and>
   balance t_ten - high_probability_price env0 m97 * 5 = 103 / 20 \<and>
   balance t_three < high_probability_price env0 m97 * 5 \<and>
   execute_trade env0 default_config None t_three m97 = Inr (t_three, None) \<and>
   0 \<le> balance t_ten \<and>
   0 \<le> balance (execute_trades env0 default_config t_ten [m97, m97, m97])"
proof -
  have p: "high_probability_price env0 m97 \<noteq> 0" by (simp add: sample_prices)
  have b: "\<not> balance t_ten < high_probability_price env0 m97 * 5"
    by (simp add: sample_prices t_ten_def VirtualTrader_def)
  have c: "balance t_ten - high_probability_price env0 m97 * 5 = 103 / 20"
    by (simp add: sample_prices t_ten_def VirtualTrader_def)
  have l: "balance t_three < high_probability_price env0 m97 * 5"
    by (simp add: sample_prices t_three_def VirtualTrader_def)
  have n: "0 \<le> balance t_ten" by (simp add: t_ten_def VirtualTrader_def)
  have 1: "\<exists>pos tr. execute_trade env0 default_config None t_ten m97 =
       Inr (t_ten\<lparr>balance := balance t_ten - high_probability_price env0 m97 * 5,
                   positions := positions t_ten @ [pos],
                   trade_history := trade_history t_ten @ [tr]\<rparr>, Some tr) \<and>
      p_potential_payout pos = p_shares pos \<and> p_profit_if_win pos = p_shares pos - p_cost pos"
    using execute_trade_guard [OF p, of default_config None t_ten] b by blast
  have 2: "execute_trade env0 default_config None t_three m97 = Inr (t_three, None)"
    using execute_trade_guard [OF p, of default_config None t_three] l by blast
  have 3: "0 \<le> balance (execute_trades env0 default_config t_ten [m97, m97, m97])"
    using execute_trade_guard [OF p, of default_config None t_ten] n by blast
  from p b c l n 1 2 3 show ?thesis by blast
qed

text \<open>
  C1 as it is stated, for every market, fails where both prices are 0 and the balance
  is negative: the balance is below the cost 0, but the call raises and returns nothing.
\<close>

theorem execute_trade_guard_counterexample:
  "balance t_neg < high_probability_price env0 m_noprice * 5 \<and>
   execute_trade env0 default_config None t_neg m_noprice = Inl ZeroDivisionError"
  by (simp add: execute_trade_cases high_probability_price_def price_m_noprice t_neg_def
      VirtualTrader_def)



text \<open>
  Claim C9, with the share count in exact arithmetic. \<open>execute_trade\<close> raises
  ZeroDivisionError exactly when the dominant price is 0, in exact and in double
  arithmetic. On a market whose two prices are both 0 it raises whatever the balance is,
  since the division comes before the balance check. On a market whose dominant price is
  not 0 the call returns, and in exact arithmetic the quotient cost / price is 5, which
  is then the share count of the trade when there is one.
\<close>

theorem zero_price_raises:
  "(execute_trade env cfg a t m = Inl ZeroDivisionError \<longleftrightarrow> high_probability_price env m = 0) \<and>
   (yes_price env m = 0 \<and> no_price env m = 0 \<longrightarrow>
      execute_trade env cfg a t m = Inl ZeroDivisionError \<and>
      execute_trade_double env cfg a t m = Inl ZeroDivisionError) \<and>
   (execute_trade_double env cfg a t m = Inl ZeroDivisionError \<longleftrightarrow>
      max (to_double (yes_price env m)) (to_double (no_price env m)) = 0) \<and>
   (max (to_double (yes_price env m)) (to_double (no_price env m)) \<noteq> 0 \<longrightarrow>
      (\<exists>t' r. execute_trade_double env cfg a t m = Inr (t', r))) \<and>
   (high_probability_price env m \<noteq> 0 \<longrightarrow>
      high_probability_price env m * 5 / high_probability_price env m = 5 \<and>
      (\<exists>t' r. execute_trade env cfg a t m = Inr (t', r) \<and>
         (\<forall>tr. r = Some tr \<longrightarrow> et_amount tr = 5)))"
proof -
  have 1: "execute_trade env cfg a t m = Inl ZeroDivisionError \<longleftrightarrow> high_probability_price env m = 0"
    by (simp add: execute_trade_cases)
  have 2: "yes_price env m = 0 \<and> no_price env m = 0 \<longrightarrow>
      execute_trade env cfg a t m = Inl ZeroDivisionError \<and>
      execute_trade_double env cfg a t m = Inl ZeroDivisionError"
    by (simp add: execute_trade_cases high_probability_price_def execute_trade_double_def
        to_double_def Let_def)
  have 3: "execute_trade_double env cfg a t m = Inl ZeroDivisionError \<longleftrightarrow>
      max (to_double (yes_price env m)) (to_double (no_price env m)) = 0"
    by (simp add: execute_trade_double_def Let_def)
  have 4: "max (to_double (yes_price env m)) (to_double (no_price env m)) \<noteq> 0 \<longrightarrow>
      (\<exists>t' r. execute_trade_double env cfg a t m = Inr (t', r))"
    by (simp add: execute_trade_double_def Let_def)
  have 5: "high_probability_price env m \<noteq> 0 \<longrightarrow>
      high_probability_price env m * 5 / high_probability_price env m = 5 \<and>
      (\<exists>t' r. execute_trade env cfg a t m = Inr (t', r) \<and>
         (\<forall>tr. r = Some tr \<longrightarrow> et_amount tr = 5))"
    by (simp add: execute_trade_cases)
  from 1 2 3 4 5 show ?thesis by blast
qed

theorem zero_price_raises_witness:
  "yes_price env0 m_noprice = 0 \<and> no_price env0 m_noprice = 0 \<and>
   execute_trade env0 default_config None t_ten m_noprice = Inl ZeroDivisionError \<and>
   execute_trade_double env0 default_config None t_ten m_noprice = Inl ZeroDivisionError \<and>
   high_probability_price env0 m97 \<noteq> 0 \<and>
   (\<exists>t' tr. execute_trade env0 default_config None t_ten m97 = Inr (t', Some tr) \<and> et_amount tr = 5) \<and>
   max (to_double (yes_price env0 m94)) (to_double (no_price env0 m94)) \<noteq> 0 \<and>
   (\<exists>t' r. execute_trade_double env0 default_config None t_ten m94 = Inr (t', r))"
proof -
  have z: "yes_price env0 m_noprice = 0 \<and> no_price env0 m_noprice = 0" by (rule price_m_noprice)
  have p: "high_probability_price env0 m97 \<noteq> 0" by (simp add: sample_prices)
  have d: "max (to_double (yes_price env0 m94)) (to_double (no_price env0 m94)) \<noteq> 0"
    by (simp add: m94_prices to_double_samples)
  have s: "\<exists>t' tr. execute_trade env0 default_config None t_ten m97 = Inr (t', Some tr)"
    by (simp add: execute_trade_cases sample_prices t_ten_def VirtualTrader_def)
  from zero_price_raises [where env = env0 and m = m_noprice and cfg = default_config and a = None and t = t_ten] z
  have 1: "execute_trade env0 default_config None t_ten m_noprice = Inl ZeroDivisionError \<and>
           execute_trade_double env0 default_config None t_ten m_noprice = Inl ZeroDivisionError"
    by blast
  from zero_price_raises [where env = env0 and m = m97 and cfg = default_config and a = None and t = t_ten] p s
  have 2: "\<exists>t' tr. execute_trade env0 default_config None t_ten m97 = Inr (t', Some tr) \<and> et_amount tr = 5"
    by auto
  from zero_price_raises [where env = env0 and m = m94 and cfg = default_config and a = None and t = t_ten] d
  have 3: "\<exists>t' r. execute_trade_double env0 default_config None t_ten m94 = Inr (t', r)"
    by blast
  from z p d 1 2 3 show ?thesis by blast
qed

text \<open>
  C9 as it is stated, with 5 shares from the division the program makes, fails in double
  arithmetic: at the price 0.98 the product is the double 4.9 and the quotient is
  5.000000000000001, one unit in the last place above 5.
\<close>

theorem zero_price_raises_counterexample:
  "high_probability_price env0 m98 \<noteq> 0 \<and>
   map_option et_amount (returned_trade (execute_trade_double env0 default_config None t_ten m98)) =
     Some (5 + 1 / 2 ^ 50)"
  by (simp add: execute_trade_double_def returned_trade_def Let_def price_defs
      m98_def sample_market_def env0_def t_ten_def VirtualTrader_def to_double_samples)

text \<open>
  Claim C10, in exact arithmetic and with the bound for a non-negative initial balance.
  After any sequence of \<open>execute_trade\<close> calls on a new trader, the initial balance
  equals the balance plus the total invested; when the initial balance is not negative,
  the total invested does not exceed it.
\<close>

theorem balance_conservation:
  "initial_balance (execute_trades env cfg (VirtualTrader b) ms) =
     balance (execute_trades env cfg (VirtualTrader b) ms) +
     get_total_invested (execute_trades env cfg (VirtualTrader b) ms) \<and>
   (0 \<le> b \<longrightarrow>
      get_total_invested (execute_trades env cfg (VirtualTrader b) ms) \<le>
      initial_balance (execute_trades env cfg (VirtualTrader b) ms))"
proof -
  let ?t = "execute_trades env cfg (VirtualTrader b) ms"
  have c: "balance ?t + get_total_invested ?t = b" and i: "initial_balance ?t = b"
    using execute_trades_conserves [of env cfg "VirtualTrader b" ms]
    by (simp_all add: VirtualTrader_def get_total_invested_def)
  have n: "0 \<le> b \<Longrightarrow> 0 \<le> balance ?t"
    using execute_trades_nonneg [of "VirtualTrader b" env cfg ms] by (simp add: VirtualTrader_def)
  from c i n show ?thesis by auto
qed

theorem balance_conservation_witness:
  "(0::rat) \<le> 10 \<and>
   balance (execute_trades env0 default_config (VirtualTrader 10) [m97, m97, m97]) = 3 / 10 \<and>
   get_total_invested (execute_trades env0 default_config (VirtualTrader 10) [m97, m97, m97]) =
     97 / 10 \<and>
   get_total_invested (execute_trades env0 default_config (VirtualTrader 10) [m97, m97, m97]) \<le>
     initial_balance (execute_trades env0 default_config (VirtualTrader 10) [m97, m97, m97])"
proof -
  let ?t = "execute_trades env0 default_config (VirtualTrader 10) [m97, m97, m97]"
  have b: "balance ?t = 3 / 10"
    by (simp add: after_trade_def execute_trade_cases sample_prices VirtualTrader_def)
  have i: "initial_balance ?t = 10"
    using execute_trades_conserves [of env0 default_config "VirtualTrader 10" "[m97, m97, m97]"]
    by (simp add: VirtualTrader_def)
  from balance_conservation [of env0 default_config 10 "[m97, m97, m97]"]
  have c: "initial_balance ?t = balance ?t + get_total_invested ?t"
    and l: "get_total_invested ?t \<le> initial_balance ?t"
    by simp_all
  from c b i have "get_total_invested ?t = 97 / 10" by simp
  with b l show ?thesis by simp
qed

text \<open>
  C10 as it is stated fails in two ways. In double arithmetic the equation is lost to
  rounding: a trader created with 1000.0 who buys twice at 0.94 has the balance
  990.5999999999999 and has invested 9.399999999999999, which add up to
  999.9999999999999, exactly and rounded. And for a trader created with a negative
  balance nothing is invested, and 0 exceeds the initial balance.
\<close>

theorem balance_conservation_counterexample:
  "initial_balance (execute_trades_double env0 default_config (VirtualTrader 1000) [m94, m94]) = 1000 \<and>
   balance (execute_trades_double env0 default_config (VirtualTrader 1000) [m94, m94]) =
     2178352436949811 / 2199023255552 \<and>
   get_total_invested_double
     (execute_trades_double env0 default_config (VirtualTrader 1000) [m94, m94]) =
     1322932390540083 / 140737488355328 \<and>
   balance (execute_trades_double env0 default_config (VirtualTrader 1000) [m94, m94]) +
     get_total_invested_double
       (execute_trades_double env0 default_config (VirtualTrader 1000) [m94, m94]) \<noteq> 1000 \<and>
   to_double
     (balance (execute_trades_double env0 default_config (VirtualTrader 1000) [m94, m94]) +
      get_total_invested_double
        (execute_trades_double env0 default_config (VirtualTrader 1000) [m94, m94])) \<noteq> 1000 \<and>
   \<not> get_total_invested (execute_trades env0 default_config (VirtualTrader (- 1)) [m97]) \<le>
       initial_balance (execute_trades env0 default_config (VirtualTrader (- 1)) [m97])"
proof -
  let ?t = "execute_trades_double env0 default_config (VirtualTrader 1000) [m94, m94]"
  have i: "initial_balance ?t = 1000"
    by (simp add: after_trade_double_def execute_trade_double_def Let_def m94_prices
        VirtualTrader_def to_double_samples)
  have b: "balance ?t = 2178352436949811 / 2199023255552"
    by (simp add: after_trade_double_def execute_trade_double_def Let_def m94_prices
        VirtualTrader_def to_double_samples)
  have g: "get_total_invested_double ?t = 1322932390540083 / 140737488355328"
    by (simp add: after_trade_double_def execute_trade_double_def get_total_invested_double_def
        Let_def m94_prices VirtualTrader_def to_double_samples)
  have e: "balance ?t + get_total_invested_double ?t \<noteq> 1000"
    unfolding b g by simp
  have r: "to_double (balance ?t + get_total_invested_double ?t) \<noteq> 1000"
    unfolding b g by (simp add: to_double_samples)
  have n: "\<not> get_total_invested (execute_trades env0 default_config (VirtualTrader (- 1)) [m97]) \<le>
       initial_balance (execute_trades env0 default_config (VirtualTrader (- 1)) [m97])"
    by (simp add: get_total_invested_def VirtualTrader_def after_trade_def execute_trade_cases
        sample_prices)
  from i b g e r n show ?thesis by blast
qed

section \<open>The eligibility filter\<close>

lemma hours_gt_iff: "hours_gt h r \<longleftrightarrow> \<not> hours_le h r"
  by (cases h) auto

lemma filter_loop_eligible: "filter_loop env cfg ms acc = acc @ filter (eligible env cfg) ms"
  by (induction ms arbitrary: acc)
     (auto simp add: eligible_def fee_too_high_def hours_gt_iff split: option.splits)

lemma filter_markets_eq:
  "filter_markets env cfg ms =
     take (MAX_TRADES_PER_RUN cfg)
       (sort_key (high_probability_price env) (filter (eligible env cfg) ms))"
  by (simp add: filter_markets_def filter_loop_eligible)

lemma filter_markets_subset:
  "m \<in> set (filter_markets env cfg ms) \<Longrightarrow> m \<in> set ms \<and> eligible env cfg m"
proof -
  assume "m \<in> set (filter_markets env cfg ms)"
  then have "m \<in> set (sort_key (high_probability_price env) (filter (eligible env cfg) ms))"
    unfolding filter_markets_eq by (rule in_set_takeD)
  then show ?thesis by simp
qed

lemma filter_markets_sorted: "sorted (map (high_probability_price env) (filter_markets env cfg ms))"
  by (simp add: filter_markets_eq take_map [symmetric] sorted_wrt_take)

lemma filter_markets_length: "length (filter_markets env cfg ms) \<le> MAX_TRADES_PER_RUN cfg"
  by (simp add: filter_markets_eq)

text \<open>
  Claim C2. The output of \<open>filter_markets\<close> is the list of the markets that pass the six
  predicates, sorted by dominant price and cut to the cap. So every market in the output
  is an input market that passes all six, and when no more markets pass than the cap
  allows, the output holds exactly those. The band is closed, and a fee that cannot be
  parsed passes (both are in \<open>eligible\<close>, and in the example after the theorem).
\<close>

theorem filter_markets_iff_eligible:
  "filter_markets env cfg ms =
     take (MAX_TRADES_PER_RUN cfg)
       (sort_key (high_probability_price env) (filter (eligible env cfg) ms)) \<and>
   (\<forall>m. m \<in> set (filter_markets env cfg ms) \<longrightarrow> m \<in> set ms \<and> eligible env cfg m) \<and>
   (length (filter (eligible env cfg) ms) \<le> MAX_TRADES_PER_RUN cfg \<longrightarrow>
      (\<forall>m. m \<in> set (filter_markets env cfg ms) \<longleftrightarrow> m \<in> set ms \<and> eligible env cfg m))"
proof -
  have "length (filter (eligible env cfg) ms) \<le> MAX_TRADES_PER_RUN cfg \<Longrightarrow>
          set (filter_markets env cfg ms) = {m \<in> set ms. eligible env cfg m}"
    by (simp add: filter_markets_eq)
  then show ?thesis
    using filter_markets_eq [of env cfg ms] filter_markets_subset [of _ env cfg ms] by blast
qed

theorem filter_markets_iff_eligible_witness:
  "length (filter (eligible env0 default_config) [m95_closed, m98, m95]) \<le>
     MAX_TRADES_PER_RUN default_config \<and>
   filter_markets env0 default_config [m95_closed, m98, m95] = [m95, m98] \<and>
   (\<forall>m. m \<in> set (filter_markets env0 default_config [m95_closed, m98, m95]) \<longleftrightarrow>
      m \<in> set [m95_closed, m98, m95] \<and> eligible env0 default_config m) \<and>
   eligible env0 default_config m95 \<and> eligible env0 default_config m98 \<and>
   \<not> eligible env0 default_config m95_closed \<and>
   max_probability env0 m98 = MAX_PROBABILITY default_config \<and>
   fee_value env0 m98 = None \<and> m_volume m98 = MIN_VOLUME default_config"
proof -
  have e: "filter (eligible env0 default_config) [m95_closed, m98, m95] = [m98, m95]"
    by (simp add: sample_eligible)
  have c: "MAX_TRADES_PER_RUN default_config = 5" by (simp add: default_config_def)
  have l: "length (filter (eligible env0 default_config) [m95_closed, m98, m95]) \<le>
             MAX_TRADES_PER_RUN default_config"
    by (simp add: e c)
  have b: "max_probability env0 m98 = MAX_PROBABILITY default_config \<and>
           fee_value env0 m98 = None \<and> m_volume m98 = MIN_VOLUME default_config"
    by (simp add: price_defs fee_value_def m98_def sample_market_def env0_def default_config_def
        float_plain_samples)
  have "filter_markets env0 default_config [m95_closed, m98, m95] =
          take 5 (sort_key (high_probability_price env0) [m98, m95])"
    using filter_markets_iff_eligible [of env0 default_config "[m95_closed, m98, m95]", THEN conjunct1]
    unfolding e c .
  then have f: "filter_markets env0 default_config [m95_closed, m98, m95] = [m95, m98]"
    by (simp add: sample_prices)
  have i: "\<forall>m. m \<in> set (filter_markets env0 default_config [m95_closed, m98, m95]) \<longleftrightarrow>
      m \<in> set [m95_closed, m98, m95] \<and> eligible env0 default_config m"
    using filter_markets_iff_eligible [of env0 default_config "[m95_closed, m98, m95]"] l by blast
  from l f i b sample_eligible show ?thesis by blast
qed

lemma filter_markets_idem:
  "filter_markets env cfg (filter_markets env cfg ms) = filter_markets env cfg ms"
proof -
  let ?out = "filter_markets env cfg ms"
  have 1: "filter (eligible env cfg) ?out = ?out"
    using filter_markets_subset [of _ env cfg ms] by (simp add: filter_id_conv)
  have 2: "sort_key (high_probability_price env) ?out = ?out"
    by (rule sort_key_id_if_sorted) (rule filter_markets_sorted)
  have 3: "take (MAX_TRADES_PER_RUN cfg) ?out = ?out"
    by (simp add: filter_markets_length)
  show ?thesis
    by (subst filter_markets_eq) (simp only: 1 2 3)
qed

lemma filter_markets_ties:
  "subseq (filter (\<lambda>m. high_probability_price env m = k) (filter_markets env cfg ms)) ms"
proof -
  let ?f = "high_probability_price env"
  let ?ys = "filter (eligible env cfg) ms"
  have "subseq (filter (\<lambda>m. ?f m = k) (take (MAX_TRADES_PER_RUN cfg) (sort_key ?f ?ys)))
          (filter (\<lambda>m. ?f m = k) (sort_key ?f ?ys))"
    by (metis append_take_drop_id filter_append prefix_def prefix_imp_subseq)
  also have "filter (\<lambda>m. ?f m = k) (sort_key ?f ?ys) = filter (\<lambda>m. ?f m = k) ?ys"
    by (rule sort_key_stable)
  finally have "subseq (filter (\<lambda>m. ?f m = k) (filter_markets env cfg ms)) (filter (\<lambda>m. ?f m = k) ?ys)"
    by (simp add: filter_markets_eq)
  moreover have "subseq (filter (\<lambda>m. ?f m = k) ?ys) ms"
    by (meson subseq_filter_left subseq_order.order_trans)
  ultimately show ?thesis by (rule subseq_order.order_trans)
qed

text \<open>
  Claim C5. The output of \<open>filter_markets\<close> is a subsequence of the input, sorted by
  dominant price with a stable sort, cut to the cap: it is sorted, no longer than the cap,
  and the markets of one price stand in the output in their order in the input. The
  filter is a function of the runtime, the configuration and the input, so a second run
  on the same input gives the same output; and a run on its own output changes nothing.
\<close>

theorem filter_markets_ranked:
  "(\<exists>ys. subseq ys ms \<and>
      filter_markets env cfg ms =
        take (MAX_TRADES_PER_RUN cfg) (sort_key (high_probability_price env) ys)) \<and>
   sorted (map (high_probability_price env) (filter_markets env cfg ms)) \<and>
   length (filter_markets env cfg ms) \<le> MAX_TRADES_PER_RUN cfg \<and>
   (\<forall>k. subseq (filter (\<lambda>m. high_probability_price env m = k) (filter_markets env cfg ms)) ms) \<and>
   filter_markets env cfg (filter_markets env cfg ms) = filter_markets env cfg ms"
proof -
  have "subseq (filter (eligible env cfg) ms) ms" by simp
  then have "\<exists>ys. subseq ys ms \<and>
      filter_markets env cfg ms =
        take (MAX_TRADES_PER_RUN cfg) (sort_key (high_probability_price env) ys)"
    using filter_markets_eq by blast
  then show ?thesis
    using filter_markets_sorted filter_markets_length filter_markets_ties filter_markets_idem
    by blast
qed

theorem filter_markets_ranked_witness:
  "filter_markets env0 (default_config\<lparr>MAX_TRADES_PER_RUN := 3\<rparr>) [m98, m97, m95, m95_closed, m95b] =
     [m95, m95b, m97] \<and>
   high_probability_price env0 m95 = high_probability_price env0 m95b \<and>
   subseq (filter (\<lambda>m. high_probability_price env0 m = 95 / 100)
             (filter_markets env0 (default_config\<lparr>MAX_TRADES_PER_RUN := 3\<rparr>)
                [m98, m97, m95, m95_closed, m95b]))
     [m98, m97, m95, m95_closed, m95b]"
proof -
  let ?cfg = "default_config\<lparr>MAX_TRADES_PER_RUN := 3\<rparr>"
  have e: "eligible env0 ?cfg = eligible env0 default_config"
    by (rule ext) (simp add: eligible_def default_config_def split: option.split)
  have f: "filter_markets env0 ?cfg [m98, m97, m95, m95_closed, m95b] = [m95, m95b, m97]"
    by (simp add: filter_markets_eq e sample_eligible sample_prices)
  have p: "high_probability_price env0 m95 = high_probability_price env0 m95b"
    by (simp add: sample_prices)
  from filter_markets_ranked [of "[m98, m97, m95, m95_closed, m95b]" env0 ?cfg]
  have s: "subseq (filter (\<lambda>m. high_probability_price env0 m = 95 / 100)
             (filter_markets env0 ?cfg [m98, m97, m95, m95_closed, m95b]))
             [m98, m97, m95, m95_closed, m95b]"
    by blast
  from f p s show ?thesis by blast
qed

section \<open>The market normaliser\<close>

text \<open>
  Claim C8, with the default for a field that is absent or falsy. \<open>parse_market\<close>
  returns no market exactly when the volume or the liquidity is a truthy value that
  \<open>float\<close> cannot convert (a word, a non-empty list or object): that record is dropped.
  When it returns a market, a volume or liquidity that is absent or falsy (null, empty
  string, zero, false, empty list or object) is 0 in it.
\<close>

theorem parse_market_numeric_fields:
  "(parse_market env d = None \<longleftrightarrow>
      (\<exists>j. r_volume d = Some j \<and> truthy j \<and> py_float env j = None) \<or>
      (\<exists>j. r_liquidity d = Some j \<and> truthy j \<and> py_float env j = None)) \<and>
   (\<forall>m. parse_market env d = Some m \<longrightarrow>
      ((r_volume d = None \<or> (\<exists>j. r_volume d = Some j \<and> \<not> truthy j)) \<longrightarrow> m_volume m = 0) \<and>
      ((r_liquidity d = None \<or> (\<exists>j. r_liquidity d = Some j \<and> \<not> truthy j)) \<longrightarrow> m_liquidity m = 0))"
  by (auto simp add: parse_market_def numeric_field_def Let_def split: option.splits if_splits)

theorem parse_market_numeric_fields_witness:
  "r_volume raw_sparse = None \<and> r_liquidity raw_sparse = Some JNull \<and> \<not> truthy JNull \<and>
   (\<exists>m. parse_market env0 raw_sparse = Some m \<and> m_volume m = 0 \<and> m_liquidity m = 0) \<and>
   r_volume raw_text_volume = Some (JStr ''abc'') \<and> truthy (JStr ''abc'') \<and>
   py_float env0 (JStr ''abc'') = None \<and> parse_market env0 raw_text_volume = None"
proof -
  have v: "r_volume raw_sparse = None \<and> r_liquidity raw_sparse = Some JNull \<and> \<not> truthy JNull"
    by (simp add: raw_sparse_def)
  have b: "r_volume raw_text_volume = Some (JStr ''abc'') \<and> truthy (JStr ''abc'') \<and>
           py_float env0 (JStr ''abc'') = None"
    by (simp add: raw_text_volume_def raw_sparse_def env0_def float_plain_samples)
  have l: "r_liquidity raw_text_volume = Some JNull"
    by (simp add: raw_text_volume_def raw_sparse_def)
  have 1: "parse_market env0 raw_text_volume = None"
    using parse_market_numeric_fields [of env0 raw_text_volume] b by blast
  have "parse_market env0 raw_sparse \<noteq> None"
    using parse_market_numeric_fields [of env0 raw_sparse] v by auto
  then obtain m where m: "parse_market env0 raw_sparse = Some m" by blast
  then have "m_volume m = 0 \<and> m_liquidity m = 0"
    using parse_market_numeric_fields [of env0 raw_sparse] v by blast
  with m v b 1 show ?thesis by blast
qed

text \<open>
  C8 as it is stated fails for a volume that is not a number: the record with volume
  \<open>"abc"\<close> gives no market at all.
\<close>

theorem parse_market_numeric_fields_counterexample:
  "r_volume raw_text_volume = Some (JStr ''abc'') \<and> py_float env0 (JStr ''abc'') = None \<and>
   parse_market env0 raw_text_volume = None"
  by (simp add: parse_market_def numeric_field_def raw_text_volume_def raw_sparse_def env0_def
      float_plain_samples)

section \<open>The run ledger\<close>

text \<open>
  What \<open>record_run\<close> adds to the counter and to the cost the ledger stores: the counter
  grows by the sum of \<open>amount\<close>, the share counts.
\<close>

lemma record_run_total_invested:
  "total_invested (fst (record_run env trades rd)) =
     total_invested trades +
     sum_list (map (\<lambda>t. et_amount (st_trade t))
       (case rd_executed_trades rd of None \<Rightarrow> [] | Some e \<Rightarrow> e))"
  by (simp add: record_run_def Let_def)

lemma record_run_ledger_cost:
  "ledger_cost (fst (record_run env trades rd)) =
     ledger_cost trades +
     sum_list (map (\<lambda>t. et_cost (st_trade t))
       (case rd_executed_trades rd of None \<Rightarrow> [] | Some e \<Rightarrow> e))"
  by (simp add: record_run_def Let_def ledger_cost_def ledger_trades_def)

lemma outcome_m95: "high_probability_outcome env0 m95 = ''YES''"
  by (simp add: high_probability_outcome_def yes_price_def no_price_def price_at_def m95_def
      sample_market_def env0_def float_plain_samples)

lemma execute_m95:
  "\<exists>t'. execute_trade env0 default_config None (VirtualTrader 1000) m95 = Inr (t', Some tr95)"
proof -
  have "\<not> balance (VirtualTrader 1000) < high_probability_price env0 m95 * 5"
    by (simp add: sample_prices VirtualTrader_def)
  then show ?thesis
    by (simp add: execute_trade_cases sample_prices outcome_m95)
       (simp add: tr95_def m95_def sample_market_def env0_def)
qed

text \<open>
  Claim C7 at one run. The run holds the trade that \<open>execute_trade\<close> returns on a
  market priced 0.95: five shares, cost 4.75. After \<open>record_run\<close> on an empty ledger the
  counter \<open>total_invested\<close> is 5, and the cost of the trades in the ledger is 4.75.
\<close>

theorem record_run_counts_shares:
  "(\<exists>t'. execute_trade env0 default_config None (VirtualTrader 1000) m95 = Inr (t', Some tr95)) \<and>
   total_invested (fst (record_run env0 empty_ledger rd95)) = 5 \<and>
   ledger_cost (fst (record_run env0 empty_ledger rd95)) = 19 / 4"
proof -
  have z: "ledger_cost empty_ledger = 0"
    by (simp add: ledger_cost_def ledger_trades_def empty_ledger_def)
  have a: "total_invested (fst (record_run env0 empty_ledger rd95)) = 5"
    by (simp add: record_run_total_invested rd95_def to_dict_def tr95_def empty_ledger_def)
  have c: "ledger_cost (fst (record_run env0 empty_ledger rd95)) = 19 / 4"
    by (simp add: record_run_ledger_cost z rd95_def to_dict_def tr95_def)
  from execute_m95 a c show ?thesis by blast
qed

section \<open>Settlement reconciliation\<close>

text \<open>On a ledger whose trades are all settled nothing is asked and nothing is returned.\<close>

lemma check_settlements_all_settled:
  assumes "\<forall>t\<in>set (ledger_trades data). is_settled t"
  shows "check_settlements api (Some data) = (no_settlement, [])"
proof -
  have "filter (\<lambda>t. \<not> is_settled t) (concat (map rr_executed_trades (runs data))) = []"
    using assms by (simp add: ledger_trades_def filter_empty_conv)
  then show ?thesis by (simp add: check_settlements_def)
qed

lemma check_ledger95:
  "check_settlements api_closed_null (Some ledger95) =
     (\<lparr>resolved = [tr95_cancelled], unresolved = [], newly_resolved = [tr95_cancelled]\<rparr>, [''m95''])"
  by (simp add: check_settlements_def ledger95_def record_run_def rd95_def to_dict_def
      empty_ledger_def is_settled_def tr95_def api_closed_null_def no_settlement_def
      tr95_cancelled_def Let_def)

lemma check_ledger95_97:
  "check_settlements api_closed_null (Some (fst (record_run env0 ledger95 rd97))) =
     (\<lparr>resolved = [tr95_cancelled], unresolved = [to_dict tr97],
       newly_resolved = [tr95_cancelled]\<rparr>, [''m95'', ''m97''])"
  by (simp add: check_settlements_def ledger95_def record_run_def rd95_def rd97_def to_dict_def
      empty_ledger_def is_settled_def tr95_def tr97_def api_closed_null_def no_settlement_def
      tr95_cancelled_def Let_def)

text \<open>
  Claim C3 at three cycles. The ledger holds one unsettled trade, and the API answers that
  its market is closed with a null resolution. The first cycle records a further run, the
  second records none. All three cycles report the trade as newly resolved, with
  resolution CANCELLED: nothing marks it settled in the ledger.
\<close>

theorem cancelled_reported_every_cycle:
  "map newly_resolved (settlement_cycles env0 api_closed_null ledger95 [Some rd97, None, None]) =
     [[tr95_cancelled], [tr95_cancelled], [tr95_cancelled]]"
  by (simp add: check_ledger95 check_ledger95_97)

section \<open>The trade loop\<close>

text \<open>
  With a trade amount of at least 5 and dominant prices in (0, 1], the cost of five shares
  never exceeds a balance that passed the check, so no attempt fails.
\<close>

lemma trade_loop_no_failure:
  assumes "5 \<le> TRADE_AMOUNT cfg"
    and "\<forall>m\<in>set ms. 0 < high_probability_price env m \<and> high_probability_price env m \<le> 1"
  shows "\<exists>t' ex' lg'. trade_loop env cfg t ms ex lg = Inr (t', ex', lg') \<and>
           (\<forall>m. TradeFailed m \<in> set lg' \<longrightarrow> TradeFailed m \<in> set lg)"
  using assms(2)
proof (induction ms arbitrary: t ex lg)
  case Nil
  then show ?case by simp
next
  case (Cons m ms)
  show ?case
  proof (cases "get_balance t < TRADE_AMOUNT cfg")
    case True
    then show ?thesis by simp
  next
    case False
    from Cons.prems have p: "0 < high_probability_price env m" "high_probability_price env m \<le> 1"
      by simp_all
    from False assms(1) p have nb: "\<not> balance t < high_probability_price env m * 5"
      by (simp add: get_balance_def)
    from p have nz: "high_probability_price env m \<noteq> 0" by simp
    obtain t' tr where e: "execute_trade env cfg None t m = Inr (t', Some tr)"
      using nb nz by (simp add: execute_trade_cases)
    from Cons.prems have "\<forall>m\<in>set ms. 0 < high_probability_price env m \<and> high_probability_price env m \<le> 1"
      by simp
    from Cons.IH [OF this, of t' "ex @ [tr]" "lg @ [TradeDone tr]"]
    show ?thesis using False e by auto
  qed
qed

text \<open>
  Claim C6, for the check the loop makes. Before each candidate the loop compares the
  balance with the configured trade amount; when the balance is lower it logs that and
  stops, attempting neither this candidate nor a later one. An attempt that returns no
  trade does not stop the loop: it logs the failure and goes on with the next candidate.
  When the trade amount is at least 5 and every dominant price is in (0, 1], no attempt
  returns no trade.
\<close>

theorem trade_loop_abort:
  "(get_balance t < TRADE_AMOUNT cfg \<longrightarrow>
      trade_loop env cfg t (m # ms) ex lg = Inr (t, ex, lg @ [BalanceInsufficient])) \<and>
   (\<not> get_balance t < TRADE_AMOUNT cfg \<and> execute_trade env cfg None t m = Inr (t, None) \<longrightarrow>
      trade_loop env cfg t (m # ms) ex lg = trade_loop env cfg t ms ex (lg @ [TradeFailed m])) \<and>
   (5 \<le> TRADE_AMOUNT cfg \<and>
    (\<forall>x\<in>set (m # ms). 0 < high_probability_price env x \<and> high_probability_price env x \<le> 1) \<longrightarrow>
      (\<exists>t' ex' lg'. trade_loop env cfg t (m # ms) [] [] = Inr (t', ex', lg') \<and>
         (\<forall>x. TradeFailed x \<notin> set lg')))"
proof -
  have 3: "5 \<le> TRADE_AMOUNT cfg \<and>
    (\<forall>x\<in>set (m # ms). 0 < high_probability_price env x \<and> high_probability_price env x \<le> 1) \<longrightarrow>
      (\<exists>t' ex' lg'. trade_loop env cfg t (m # ms) [] [] = Inr (t', ex', lg') \<and>
         (\<forall>x. TradeFailed x \<notin> set lg'))"
    using trade_loop_no_failure [of cfg "m # ms" env t "[]" "[]"] by auto
  have 1: "get_balance t < TRADE_AMOUNT cfg \<longrightarrow>
      trade_loop env cfg t (m # ms) ex lg = Inr (t, ex, lg @ [BalanceInsufficient])"
    by simp
  have 2: "\<not> get_balance t < TRADE_AMOUNT cfg \<and> execute_trade env cfg None t m = Inr (t, None) \<longrightarrow>
      trade_loop env cfg t (m # ms) ex lg = trade_loop env cfg t ms ex (lg @ [TradeFailed m])"
    by simp
  from 1 2 3 show ?thesis by blast
qed

theorem trade_loop_abort_witness:
  "get_balance t_three < TRADE_AMOUNT default_config \<and>
   trade_loop env0 default_config t_three [m95, m97] [] [] = Inr (t_three, [], [BalanceInsufficient]) \<and>
   \<not> get_balance t_low < TRADE_AMOUNT cfg_unit \<and>
   execute_trade env0 cfg_unit None t_low m95 = Inr (t_low, None) \<and>
   trade_loop env0 cfg_unit t_low [m95, m97] [] [] =
     trade_loop env0 cfg_unit t_low [m97] [] [TradeFailed m95] \<and>
   5 \<le> TRADE_AMOUNT default_config \<and>
   0 < high_probability_price env0 m95 \<and> high_probability_price env0 m95 \<le> 1 \<and>
   0 < high_probability_price env0 m97 \<and> high_probability_price env0 m97 \<le> 1 \<and>
   (\<exists>t' ex' lg'. trade_loop env0 default_config t_ten [m95, m97] [] [] = Inr (t', ex', lg') \<and>
      (\<forall>x. TradeFailed x \<notin> set lg'))"
proof -
  have a: "get_balance t_three < TRADE_AMOUNT default_config"
    by (simp add: get_balance_def t_three_def VirtualTrader_def default_config_def)
  have b: "\<not> get_balance t_low < TRADE_AMOUNT cfg_unit"
    by (simp add: get_balance_def t_low_def VirtualTrader_def cfg_unit_def default_config_def)
  have c: "execute_trade env0 cfg_unit None t_low m95 = Inr (t_low, None)"
    by (simp add: execute_trade_cases sample_prices t_low_def VirtualTrader_def)
  have d: "5 \<le> TRADE_AMOUNT default_config" by (simp add: default_config_def)
  have e: "0 < high_probability_price env0 m95 \<and> high_probability_price env0 m95 \<le> 1 \<and>
           0 < high_probability_price env0 m97 \<and> high_probability_price env0 m97 \<le> 1"
    by (simp add: sample_prices)
  have 1: "trade_loop env0 default_config t_three [m95, m97] [] [] = Inr (t_three, [], [BalanceInsufficient])"
    using trade_loop_abort [of t_three default_config env0 m95 "[m97]" "[]" "[]"] a by simp
  have 2: "trade_loop env0 cfg_unit t_low [m95, m97] [] [] =
             trade_loop env0 cfg_unit t_low [m97] [] [TradeFailed m95]"
    using trade_loop_abort [of t_low cfg_unit env0 m95 "[m97]" "[]" "[]"] b c by simp
  have 3: "\<exists>t' ex' lg'. trade_loop env0 default_config t_ten [m95, m97] [] [] = Inr (t', ex', lg') \<and>
      (\<forall>x. TradeFailed x \<notin> set lg')"
    using trade_loop_abort [of t_ten default_config env0 m95 "[m97]" "[]" "[]"] d e by simp
  from a b c d e 1 2 3 show ?thesis by blast
qed

lemma t_low_fails:
  "execute_trade env0 cfg_unit None t_low m95 = Inr (t_low, None)"
  "execute_trade env0 cfg_unit None t_low m97 = Inr (t_low, None)"
  by (simp_all add: execute_trade_cases sample_prices t_low_def VirtualTrader_def)

text \<open>
  C6 as it is stated fails when the trade amount is below the cost: the attempt on the
  first candidate returns no trade, and the second candidate is attempted all the same.
\<close>

theorem trade_loop_abort_counterexample:
  "execute_trade env0 cfg_unit None t_low m95 = Inr (t_low, None) \<and>
   trade_loop env0 cfg_unit t_low [m95, m97] [] [] =
     Inr (t_low, [], [TradeFailed m95, TradeFailed m97])"
proof -
  have "TRADE_AMOUNT cfg_unit = 1" by (simp add: cfg_unit_def default_config_def)
  moreover have "balance t_low = 9 / 2" by (simp add: t_low_def VirtualTrader_def)
  ultimately show ?thesis by (simp add: t_low_fails get_balance_def)
qed

end
